theory Spec2Isabelle
  imports Main "HOL-Library.Word"
begin

section \<open>ArucoBoard: marker dictionary and board dimensions\<close>

text \<open>
  \<^verbatim>\<open>src/positiondetector/ArucoBoard.cpp\<close>. Every failure of the code modelled here is a
  \<^verbatim>\<open>throw std::runtime_error(msg)\<close>; the model returns it as \<open>Inl (runtime_error msg)\<close>.
\<close>

datatype error = runtime_error string

text \<open>
  The sixteen enumerators of \<^verbatim>\<open>cv::aruco\<close> that \<^verbatim>\<open>arucoDictionaryID\<close> mentions. The
  enumeration belongs to the vision library; the model keeps the enumerators as
  constructors and does not fix their numeric values.
\<close>

datatype PREDEFINED_DICTIONARY_NAME =
    DICT_4X4_50 | DICT_4X4_100 | DICT_4X4_250 | DICT_4X4_1000
  | DICT_5X5_50 | DICT_5X5_100 | DICT_5X5_250 | DICT_5X5_1000
  | DICT_6X6_50 | DICT_6X6_100 | DICT_6X6_250 | DICT_6X6_1000
  | DICT_7X7_50 | DICT_7X7_100 | DICT_7X7_250 | DICT_7X7_1000

text \<open>
  \<^verbatim>\<open>std::map<std::string, int> dict_map { ... }\<close>, in the order of the initialiser list;
  \<^verbatim>\<open>dict_map.at(key)\<close> is \<open>map_of dict_map key\<close>, and its \<^verbatim>\<open>std::out_of_range\<close> is \<open>None\<close>.
\<close>

definition dict_map :: "(string \<times> PREDEFINED_DICTIONARY_NAME) list" where
  "dict_map =
    [(''4X4_50'', DICT_4X4_50), (''4X4_100'', DICT_4X4_100),
     (''4X4_250'', DICT_4X4_250), (''4X4_1000'', DICT_4X4_1000),
     (''5X5_50'', DICT_5X5_50), (''5X5_100'', DICT_5X5_100),
     (''5X5_250'', DICT_5X5_250), (''5X5_1000'', DICT_5X5_1000),
     (''6X6_50'', DICT_6X6_50), (''6X6_100'', DICT_6X6_100),
     (''6X6_250'', DICT_6X6_250), (''6X6_1000'', DICT_6X6_1000),
     (''7X7_50'', DICT_7X7_50), (''7X7_100'', DICT_7X7_100),
     (''7X7_250'', DICT_7X7_250), (''7X7_1000'', DICT_7X7_1000)]"

definition arucoDictionaryID :: "string \<Rightarrow> error + PREDEFINED_DICTIONARY_NAME" where
  "arucoDictionaryID key =
    (case map_of dict_map key of
       Some v \<Rightarrow> Inr v
     | None \<Rightarrow> Inl (runtime_error ''Invalid aruco board dictionary.''))"

text \<open>
  A C++ \<^verbatim>\<open>int\<close> is a 32-bit word read as two's complement (\<open>sint\<close>); \<open>*\<close> wraps around.
\<close>

type_synonym cint = "32 word"

text \<open>
  \<^verbatim>\<open>dict->bytesList.rows\<close> of the dictionary that \<^verbatim>\<open>cv::aruco::getPredefinedDictionary\<close>
  returns: the source's comment reads "bytesList.rows is dict size", and its option text
  gives the names as \<^verbatim>\<open><Size>X<Size>_<Number of Markers>\<close>.
\<close>

fun bytesList_rows :: "PREDEFINED_DICTIONARY_NAME \<Rightarrow> cint" where
  "bytesList_rows DICT_4X4_50 = 50"
| "bytesList_rows DICT_4X4_100 = 100"
| "bytesList_rows DICT_4X4_250 = 250"
| "bytesList_rows DICT_4X4_1000 = 1000"
| "bytesList_rows DICT_5X5_50 = 50"
| "bytesList_rows DICT_5X5_100 = 100"
| "bytesList_rows DICT_5X5_250 = 250"
| "bytesList_rows DICT_5X5_1000 = 1000"
| "bytesList_rows DICT_6X6_50 = 50"
| "bytesList_rows DICT_6X6_100 = 100"
| "bytesList_rows DICT_6X6_250 = 250"
| "bytesList_rows DICT_6X6_1000 = 1000"
| "bytesList_rows DICT_7X7_50 = 50"
| "bytesList_rows DICT_7X7_100 = 100"
| "bytesList_rows DICT_7X7_250 = 250"
| "bytesList_rows DICT_7X7_1000 = 1000"

text \<open>
  What \<^verbatim>\<open>applyConfiguration\<close> reads through \<^verbatim>\<open>oat::config::getValue\<close> and
  \<^verbatim>\<open>oat::config::getArray<int, 2>\<close> (helpers of \<^verbatim>\<open>lib/utility\<close>), taken as inputs:
  \<open>dictionary\<close> is the configured \<^verbatim>\<open>"dictionary"\<close> string when there is one, and
  \<open>board_size\<close> the two elements \<^verbatim>\<open>n[0]\<close>, \<^verbatim>\<open>n[1]\<close> of \<^verbatim>\<open>"board-size"\<close> when \<^verbatim>\<open>getArray\<close>
  returned true ("Two element int array, [X,Y]").
\<close>

record options =
  dictionary :: "string option"
  board_size :: "(cint \<times> cint) option"

text \<open>
  The block \<^verbatim>\<open>// Board dimensions\<close> of \<^verbatim>\<open>applyConfiguration\<close>:
  \<^verbatim>\<open>
  if (getArray<int, 2>(vm, config_table, "board-size", n, true)) {
      if (n[0] < 1 || n[1] < 1)
          throw std::runtime_error("Board size values must be greater than one.");
      if (n[0] * n[1] > dict->bytesList.rows)
          throw std::runtime_error("Board size is too large for selected dictionary.");
  }
  \<close>
\<close>

definition board_dimensions ::
  "(cint \<times> cint) option \<Rightarrow> PREDEFINED_DICTIONARY_NAME \<Rightarrow> error + unit" where
  "board_dimensions n dict =
    (case n of
       None \<Rightarrow> Inr ()
     | Some (n0, n1) \<Rightarrow>
         if sint n0 < 1 \<or> sint n1 < 1
         then Inl (runtime_error ''Board size values must be greater than one.'')
         else if sint (bytesList_rows dict) < sint (n0 * n1)
         then Inl (runtime_error ''Board size is too large for selected dictionary.'')
         else Inr ())"

text \<open>
  \<^verbatim>\<open>ArucoBoard::applyConfiguration\<close>: the dictionary key defaults to \<^verbatim>\<open>"4X4_50"\<close> and is
  replaced by the configured one; \<^verbatim>\<open>arucoDictionaryID\<close> is the first call that can throw,
  the board dimensions are checked next, and only then the remainder of the function
  runs (length, separation, detection parameters, board creation, printing, camera
  model, tuner). The remainder is the parameter \<open>rest\<close>, given the dictionary and the
  board size.
\<close>

definition applyConfiguration ::
  "options \<Rightarrow> (PREDEFINED_DICTIONARY_NAME \<Rightarrow> (cint \<times> cint) option \<Rightarrow> error + 'r) \<Rightarrow> error + 'r" where
  "applyConfiguration opts rest =
    (let dict_key = (case dictionary opts of Some k \<Rightarrow> k | None \<Rightarrow> ''4X4_50'') in
     case arucoDictionaryID dict_key of
       Inl e \<Rightarrow> Inl e
     | Inr dict \<Rightarrow>
         (case board_dimensions (board_size opts) dict of
            Inl e \<Rightarrow> Inl e
          | Inr _ \<Rightarrow> rest dict (board_size opts)))"

section \<open>Decorator: drawing the position symbols\<close>

text \<open>
  \<^verbatim>\<open>src/decorator/Decorator.cpp\<close>. The position sample that \<^verbatim>\<open>drawSymbols\<close> reads: three
  validity flags and three \<^verbatim>\<open>cv::Point2f\<close> values. The point type is the parameter \<open>'p\<close>:
  no property below depends on floating-point arithmetic.
\<close>

record 'p Position =
  position_valid :: bool
  position :: "'p"
  head_direction_valid :: bool
  head_direction :: "'p"
  velocity_valid :: bool
  velocity :: "'p"

text \<open>\<^verbatim>\<open>cv::Scalar(b, g, r)\<close> with the integer literals of the source.\<close>

datatype Scalar = Scalar int int int

text \<open>
  The vision library as the drawing code uses it, taken as a parameter: \<^verbatim>\<open>cv::circle\<close>
  and \<^verbatim>\<open>cv::line\<close> return the image they leave behind, and \<open>point_sub\<close>,
  \<open>point_add\<close>, \<open>point_scale\<close> are \<^verbatim>\<open>-\<close>, \<^verbatim>\<open>+\<close> and scalar \<^verbatim>\<open>*\<close> on \<^verbatim>\<open>cv::Point2f\<close>.
\<close>

record ('img, 'p, 'f) cv =
  circle :: "'img \<Rightarrow> 'p \<Rightarrow> int \<Rightarrow> Scalar \<Rightarrow> int \<Rightarrow> 'img"
  line :: "'img \<Rightarrow> 'p \<Rightarrow> 'p \<Rightarrow> Scalar \<Rightarrow> int \<Rightarrow> int \<Rightarrow> 'img"
  point_sub :: "'p \<Rightarrow> 'p \<Rightarrow> 'p"
  point_add :: "'p \<Rightarrow> 'p \<Rightarrow> 'p"
  point_scale :: "'f \<Rightarrow> 'p \<Rightarrow> 'p"

text \<open>
  The members of \<^verbatim>\<open>Decorator\<close> that the drawing code touches. The member \<^verbatim>\<open>position\<close> is
  \<open>position_sample\<close> here, since the sample has a field \<^verbatim>\<open>position\<close> of its own
  (\<^verbatim>\<open>position.position\<close> in the source).
\<close>

record ('img, 'p, 'f) Decorator =
  position_sample :: "'p Position"
  image :: "'img"
  position_circle_radius :: int
  head_dir_line_length :: "'f"
  velocity_scale_factor :: "'f"

definition drawPosition ::
  "('img, 'p, 'f) cv \<Rightarrow> ('img, 'p, 'f) Decorator \<Rightarrow> ('img, 'p, 'f) Decorator" where
  "drawPosition cv d =
    (if position_valid (position_sample d)
     then d\<lparr>image := circle cv (image d) (position (position_sample d))
                    (position_circle_radius d) (Scalar 1 1 1) 2\<rparr>
     else d)"

definition drawHeadDirection ::
  "('img, 'p, 'f) cv \<Rightarrow> ('img, 'p, 'f) Decorator \<Rightarrow> ('img, 'p, 'f) Decorator" where
  "drawHeadDirection cv d =
    (if position_valid (position_sample d) \<and> head_direction_valid (position_sample d)
     then
       (let start = point_sub cv (position (position_sample d))
                      (point_scale cv (head_dir_line_length d) (head_direction (position_sample d)));
            end = point_add cv (position (position_sample d))
                      (point_scale cv (head_dir_line_length d) (head_direction (position_sample d)))
        in d\<lparr>image := line cv (image d) start end (Scalar 255 255 255) 2 8\<rparr>)
     else d)"

definition drawVelocity ::
  "('img, 'p, 'f) cv \<Rightarrow> ('img, 'p, 'f) Decorator \<Rightarrow> ('img, 'p, 'f) Decorator" where
  "drawVelocity cv d =
    (if velocity_valid (position_sample d) \<and> position_valid (position_sample d)
     then
       (let end = point_add cv (position (position_sample d))
                      (point_scale cv (velocity_scale_factor d) (velocity (position_sample d)))
        in d\<lparr>image := line cv (image d) (position (position_sample d)) end (Scalar 0 255 0) 2 8\<rparr>)
     else d)"

definition drawSymbols ::
  "('img, 'p, 'f) cv \<Rightarrow> ('img, 'p, 'f) Decorator \<Rightarrow> ('img, 'p, 'f) Decorator" where
  "drawSymbols cv d = drawVelocity cv (drawHeadDirection cv (drawPosition cv d))"

text \<open>
  \<^verbatim>\<open>decorateImage\<close>: \<open>pos\<close> is what \<^verbatim>\<open>position_source.get_value()\<close> returned and
  \<open>frame\<close> what \<^verbatim>\<open>frame_source.get_value()\<close> returned; \<^verbatim>\<open>clone()\<close> copies it.
\<close>

definition decorateImage ::
  "('img, 'p, 'f) cv \<Rightarrow> 'p Position \<Rightarrow> 'img \<Rightarrow> ('img, 'p, 'f) Decorator
     \<Rightarrow> ('img, 'p, 'f) Decorator" where
  "decorateImage cv pos frame d = drawSymbols cv (d\<lparr>position_sample := pos, image := frame\<rparr>)"

section \<open>Node: the slot table\<close>

text \<open>
  \<^verbatim>\<open>Node.h\<close> is not among the sources; \<^verbatim>\<open>Node_test.cpp\<close> is. The data and the two slot
  operations below follow the specification's sections 3 and 4.1, and the loop follows
  the test.
\<close>

datatype SinkState = UNDEFINED | BOUND

datatype node_error = CapacityExceeded

text \<open>
  Modelled from the spec: a slot record \<^verbatim>\<open>{ in_use: bool, read_done_barrier }\<close>; the
  barrier is a counting signal, kept as its count.
\<close>

record Slot =
  in_use :: bool
  read_done_barrier :: nat

text \<open>
  Modelled from the spec: the Node's fields of section 3. \<open>active_slot_count\<close> is the
  number the test reads through \<^verbatim>\<open>source_ref_count()\<close>.
\<close>

record Node =
  sample_counter :: nat
  sink_state :: SinkState
  slots :: "Slot list"
  write_ready_barrier :: nat
  active_slot_count :: int

text \<open>
  Modelled from the spec: \<^verbatim>\<open>Node::NUM_SLOTS\<close> is declared in the missing header; the
  capacity is 10, and the test expects no throw "until the 11th" source.
\<close>

definition NUM_SLOTS :: nat where
  "NUM_SLOTS = 10"

text \<open>
  Modelled from the spec: the constructor \<^verbatim>\<open>oat::Node node;\<close> is missing. "A fresh Node
  starts with active_slot_count == 0 and sink_state == UNDEFINED"; the table has
  \<open>NUM_SLOTS\<close> entries, none in use.
\<close>

definition fresh_node :: Node where
  "fresh_node =
    \<lparr>sample_counter = 0, sink_state = UNDEFINED,
     slots = replicate NUM_SLOTS \<lparr>in_use = False, read_done_barrier = 0\<rparr>,
     write_ready_barrier = 0, active_slot_count = 0\<rparr>"

text \<open>
  Modelled from the spec: \<^verbatim>\<open>source_ref_count()\<close> reports \<open>active_slot_count\<close>.
\<close>

definition source_ref_count :: "Node \<Rightarrow> int" where
  "source_ref_count n = active_slot_count n"

text \<open>
  Modelled from the spec: "the first free entry in the slot table", as the index of the
  first entry that is not in use, if there is one.
\<close>

fun first_free :: "Slot list \<Rightarrow> nat option" where
  "first_free [] = None"
| "first_free (s # ss) = (if in_use s then map_option Suc (first_free ss) else Some 0)"

text \<open>
  Modelled from the spec: \<^verbatim>\<open>Node::acquireSlot\<close> is missing. It "finds the first free entry
  in the slot table, marks it in_use, increments active_slot_count, returns its index.
  Fails with a CapacityExceeded condition when the table has no free entry". The result
  is paired with the node the call leaves behind.
\<close>

definition acquireSlot :: "Node \<Rightarrow> (node_error + int) \<times> Node" where
  "acquireSlot n =
    (case first_free (slots n) of
       None \<Rightarrow> (Inl CapacityExceeded, n)
     | Some i \<Rightarrow>
         (Inr (int i),
          n\<lparr>slots := (slots n)[i := (slots n ! i)\<lparr>in_use := True\<rparr>],
            active_slot_count := active_slot_count n + 1\<rparr>))"

text \<open>
  Modelled from the spec: \<^verbatim>\<open>Node::releaseSlot\<close> is missing. It "marks the entry free"; an
  index outside the table, or one whose entry is not in use (never acquired, already
  released), "is treated as a harmless no-op".
\<close>

definition releaseSlot :: "Node \<Rightarrow> int \<Rightarrow> Node" where
  "releaseSlot n index =
    (if 0 \<le> index \<and> index < int (length (slots n)) \<and> in_use (slots n ! nat index)
     then n\<lparr>slots := (slots n)[nat index := (slots n ! nat index)\<lparr>in_use := False\<rparr>],
            active_slot_count := active_slot_count n - 1\<rparr>
     else n)"

text \<open>
  The loop of the test, \<^verbatim>\<open>for (size_t i = 0; i < k; i++) { node.acquireSlot(); }\<close>: the
  first call that throws ends it. The result lists the indices handed out.
\<close>

fun acquireSlots :: "nat \<Rightarrow> Node \<Rightarrow> (node_error + int list) \<times> Node" where
  "acquireSlots 0 n = (Inr [], n)"
| "acquireSlots (Suc k) n =
    (case acquireSlot n of
       (Inl e, n') \<Rightarrow> (Inl e, n')
     | (Inr i, n') \<Rightarrow>
         (case acquireSlots k n' of
            (Inl e, n'') \<Rightarrow> (Inl e, n'')
          | (Inr js, n'') \<Rightarrow> (Inr (i # js), n'')))"

text \<open>
  Modelled from the spec: the invariant of its section 3. The table has \<open>NUM_SLOTS\<close>
  entries and \<open>active_slot_count\<close> is the "number of slots currently in_use".
\<close>

definition node_inv :: "Node \<Rightarrow> bool" where
  "node_inv n \<longleftrightarrow>
     length (slots n) = NUM_SLOTS \<and>
     active_slot_count n = int (length (filter in_use (slots n)))"

section \<open>Properties of the marker dictionary and the board dimensions\<close>

lemma sint_mult_le:
  fixes a b :: cint
  assumes "1 \<le> sint a" and "1 \<le> sint b"
  shows "sint (a * b) \<le> sint a * sint b"
proof -
  have "0 \<le> sint a * sint b"
    using assms by simp
  moreover have "- (2 ^ 31) \<le> (0 :: int)"
    by simp
  ultimately have "- (2 ^ 31) \<le> sint a * sint b"
    by (rule order_trans [rotated])
  then have "signed_take_bit 31 (sint a * sint b) \<le> sint a * sint b"
    by (simp only: signed_take_bit_int_less_eq_self_iff)
  then show ?thesis
    by (simp add: sint_word_mult)
qed

lemma bytesList_rows_pos: "1 \<le> sint (bytesList_rows dict)"
  by (cases dict) simp_all

lemma board_dimensions_isl:
  "isl (board_dimensions (Some (n0, n1)) dict) \<longleftrightarrow>
     sint n0 < 1 \<or> sint n1 < 1 \<or> sint (bytesList_rows dict) < sint (n0 * n1)"
  by (simp add: board_dimensions_def)

lemma board_dimensions_one_one: "board_dimensions (Some (1, 1)) dict = Inr ()"
  using bytesList_rows_pos [of dict] by (simp add: board_dimensions_def)

text \<open>
  The product is the wrapped one: 65536 * 65536 is 0 in 32 bits, so this board passes the
  second test although it has more markers than any dictionary.
\<close>

lemma board_dimensions_wraps: "board_dimensions (Some (65536, 65536)) DICT_4X4_50 = Inr ()"
  by (simp add: board_dimensions_def)

text \<open>
  The lookup: \<^verbatim>\<open>arucoDictionaryID\<close> returns the matching identifier for each of the sixteen
  dictionary names, and for every other key it fails with the runtime error "Invalid aruco
  board dictionary."; \<^verbatim>\<open>applyConfiguration\<close> then fails with that error whatever the
  remaining options are, and its remainder \<open>rest\<close> is not reached.
\<close>

theorem arucoDictionaryID_keys:
  "arucoDictionaryID ''4X4_50'' = Inr DICT_4X4_50 \<and>
   arucoDictionaryID ''4X4_100'' = Inr DICT_4X4_100 \<and>
   arucoDictionaryID ''4X4_250'' = Inr DICT_4X4_250 \<and>
   arucoDictionaryID ''4X4_1000'' = Inr DICT_4X4_1000 \<and>
   arucoDictionaryID ''5X5_50'' = Inr DICT_5X5_50 \<and>
   arucoDictionaryID ''5X5_100'' = Inr DICT_5X5_100 \<and>
   arucoDictionaryID ''5X5_250'' = Inr DICT_5X5_250 \<and>
   arucoDictionaryID ''5X5_1000'' = Inr DICT_5X5_1000 \<and>
   arucoDictionaryID ''6X6_50'' = Inr DICT_6X6_50 \<and>
   arucoDictionaryID ''6X6_100'' = Inr DICT_6X6_100 \<and>
   arucoDictionaryID ''6X6_250'' = Inr DICT_6X6_250 \<and>
   arucoDictionaryID ''6X6_1000'' = Inr DICT_6X6_1000 \<and>
   arucoDictionaryID ''7X7_50'' = Inr DICT_7X7_50 \<and>
   arucoDictionaryID ''7X7_100'' = Inr DICT_7X7_100 \<and>
   arucoDictionaryID ''7X7_250'' = Inr DICT_7X7_250 \<and>
   arucoDictionaryID ''7X7_1000'' = Inr DICT_7X7_1000 \<and>
   (key \<notin> {''4X4_50'', ''4X4_100'', ''4X4_250'', ''4X4_1000'',
             ''5X5_50'', ''5X5_100'', ''5X5_250'', ''5X5_1000'',
             ''6X6_50'', ''6X6_100'', ''6X6_250'', ''6X6_1000'',
             ''7X7_50'', ''7X7_100'', ''7X7_250'', ''7X7_1000''} \<longrightarrow>
      arucoDictionaryID key = Inl (runtime_error ''Invalid aruco board dictionary.'') \<and>
      (dictionary opts = Some key \<longrightarrow>
         applyConfiguration opts rest = Inl (runtime_error ''Invalid aruco board dictionary.'')))"
proof -
  have names: "arucoDictionaryID ''4X4_50'' = Inr DICT_4X4_50 \<and>
   arucoDictionaryID ''4X4_100'' = Inr DICT_4X4_100 \<and>
   arucoDictionaryID ''4X4_250'' = Inr DICT_4X4_250 \<and>
   arucoDictionaryID ''4X4_1000'' = Inr DICT_4X4_1000 \<and>
   arucoDictionaryID ''5X5_50'' = Inr DICT_5X5_50 \<and>
   arucoDictionaryID ''5X5_100'' = Inr DICT_5X5_100 \<and>
   arucoDictionaryID ''5X5_250'' = Inr DICT_5X5_250 \<and>
   arucoDictionaryID ''5X5_1000'' = Inr DICT_5X5_1000 \<and>
   arucoDictionaryID ''6X6_50'' = Inr DICT_6X6_50 \<and>
   arucoDictionaryID ''6X6_100'' = Inr DICT_6X6_100 \<and>
   arucoDictionaryID ''6X6_250'' = Inr DICT_6X6_250 \<and>
   arucoDictionaryID ''6X6_1000'' = Inr DICT_6X6_1000 \<and>
   arucoDictionaryID ''7X7_50'' = Inr DICT_7X7_50 \<and>
   arucoDictionaryID ''7X7_100'' = Inr DICT_7X7_100 \<and>
   arucoDictionaryID ''7X7_250'' = Inr DICT_7X7_250 \<and>
   arucoDictionaryID ''7X7_1000'' = Inr DICT_7X7_1000"
    by (simp add: arucoDictionaryID_def dict_map_def)
  have other: "arucoDictionaryID key = Inl (runtime_error ''Invalid aruco board dictionary.'')"
    if "key \<notin> {''4X4_50'', ''4X4_100'', ''4X4_250'', ''4X4_1000'',
             ''5X5_50'', ''5X5_100'', ''5X5_250'', ''5X5_1000'',
             ''6X6_50'', ''6X6_100'', ''6X6_250'', ''6X6_1000'',
             ''7X7_50'', ''7X7_100'', ''7X7_250'', ''7X7_1000''}"
    using that by (simp add: arucoDictionaryID_def dict_map_def)
  have eager: "applyConfiguration opts rest = Inl (runtime_error ''Invalid aruco board dictionary.'')"
    if "arucoDictionaryID key = Inl (runtime_error ''Invalid aruco board dictionary.'')"
      and "dictionary opts = Some key"
    using that by (simp add: applyConfiguration_def)
  have others: "key \<notin> {''4X4_50'', ''4X4_100'', ''4X4_250'', ''4X4_1000'',
             ''5X5_50'', ''5X5_100'', ''5X5_250'', ''5X5_1000'',
             ''6X6_50'', ''6X6_100'', ''6X6_250'', ''6X6_1000'',
             ''7X7_50'', ''7X7_100'', ''7X7_250'', ''7X7_1000''} \<longrightarrow>
      arucoDictionaryID key = Inl (runtime_error ''Invalid aruco board dictionary.'') \<and>
      (dictionary opts = Some key \<longrightarrow>
         applyConfiguration opts rest = Inl (runtime_error ''Invalid aruco board dictionary.''))"
  proof (intro impI conjI)
    assume k: "key \<notin> {''4X4_50'', ''4X4_100'', ''4X4_250'', ''4X4_1000'',
             ''5X5_50'', ''5X5_100'', ''5X5_250'', ''5X5_1000'',
             ''6X6_50'', ''6X6_100'', ''6X6_250'', ''6X6_1000'',
             ''7X7_50'', ''7X7_100'', ''7X7_250'', ''7X7_1000''}"
    show "arucoDictionaryID key = Inl (runtime_error ''Invalid aruco board dictionary.'')"
      by (rule other [OF k])
    assume "dictionary opts = Some key"
    then show "applyConfiguration opts rest = Inl (runtime_error ''Invalid aruco board dictionary.'')"
      by (rule eager [OF other [OF k]])
  qed
  from names others show ?thesis
    by (elim conjE, intro conjI) assumption+
qed

theorem arucoDictionaryID_keys_witness:
  "arucoDictionaryID ''8X8_50'' = Inl (runtime_error ''Invalid aruco board dictionary.'') \<and>
   applyConfiguration \<lparr>dictionary = Some ''8X8_50'', board_size = Some (3, 3)\<rparr>
       (\<lambda>dict n. Inr (dict, n))
     = Inl (runtime_error ''Invalid aruco board dictionary.'')"
  using arucoDictionaryID_keys
    [of "''8X8_50''" "\<lparr>dictionary = Some ''8X8_50'', board_size = Some (3, 3)\<rparr>"
        "\<lambda>dict n. Inr (dict, n)"]
  by simp

text \<open>
  The board-size block on its own: it fails only when a component is less than 1 or the
  product of the two components exceeds the marker count of the dictionary it is given.
\<close>

lemma board_dimensions_rejects:
  "(isl (board_dimensions (Some (n0, n1)) dict) \<longrightarrow>
      sint n0 < 1 \<or> sint n1 < 1 \<or> sint (bytesList_rows dict) < sint n0 * sint n1) \<and>
   (isl (board_dimensions (Some (n0, n1)) dict) \<longleftrightarrow>
      sint n0 < 1 \<or> sint n1 < 1 \<or> sint (bytesList_rows dict) < sint (n0 * n1)) \<and>
   (board_dimensions (Some (n0, n1)) dict =
        Inl (runtime_error ''Board size values must be greater than one.'') \<longleftrightarrow>
      sint n0 < 1 \<or> sint n1 < 1) \<and>
   board_dimensions (Some (1, 1)) dict = Inr () \<and>
   board_dimensions None dict = Inr () \<and>
   (arucoDictionaryID key = Inr dict \<longrightarrow>
      applyConfiguration \<lparr>dictionary = Some key, board_size = Some (1, 1)\<rparr> rest
        = rest dict (Some (1, 1)))"
proof -
  have only: "sint n0 < 1 \<or> sint n1 < 1 \<or> sint (bytesList_rows dict) < sint n0 * sint n1"
    if "isl (board_dimensions (Some (n0, n1)) dict)"
  proof (cases "sint n0 < 1 \<or> sint n1 < 1")
    case True
    then show ?thesis by blast
  next
    case False
    then have "1 \<le> sint n0" and "1 \<le> sint n1"
      by auto
    then have "sint (n0 * n1) \<le> sint n0 * sint n1"
      by (rule sint_mult_le)
    moreover have "sint (bytesList_rows dict) < sint (n0 * n1)"
      using that False by (simp add: board_dimensions_isl)
    ultimately show ?thesis
      by linarith
  qed
  have first: "board_dimensions (Some (n0, n1)) dict =
        Inl (runtime_error ''Board size values must be greater than one.'') \<longleftrightarrow>
      sint n0 < 1 \<or> sint n1 < 1"
    by (simp add: board_dimensions_def)
  have none: "board_dimensions None dict = Inr ()"
    by (simp add: board_dimensions_def)
  have accepted: "applyConfiguration \<lparr>dictionary = Some key, board_size = Some (1, 1)\<rparr> rest
        = rest dict (Some (1, 1))" if "arucoDictionaryID key = Inr dict"
    using that by (simp add: applyConfiguration_def board_dimensions_one_one)
  from only first none accepted board_dimensions_isl [of n0 n1 dict]
    board_dimensions_one_one [of dict]
  show ?thesis
    by blast
qed

lemma board_dimensions_accepts:
  assumes "\<not> (sint n0 < 1 \<or> sint n1 < 1 \<or> sint (bytesList_rows dict) < sint n0 * sint n1)"
  shows "board_dimensions (Some (n0, n1)) dict = Inr ()"
proof -
  from assms have "1 \<le> sint n0" and "1 \<le> sint n1"
    and le: "sint n0 * sint n1 \<le> sint (bytesList_rows dict)"
    by auto
  then have "sint (n0 * n1) \<le> sint n0 * sint n1"
    by (simp add: sint_mult_le)
  with le have "\<not> sint (bytesList_rows dict) < sint (n0 * n1)"
    by linarith
  with assms show ?thesis
    by (simp add: board_dimensions_def)
qed

lemma applyConfiguration_board:
  assumes "arucoDictionaryID (case dictionary opts of Some k \<Rightarrow> k | None \<Rightarrow> ''4X4_50'') = Inr dict"
  shows "applyConfiguration opts rest =
    (case board_size opts of
       None \<Rightarrow> rest dict None
     | Some (n0, n1) \<Rightarrow>
         if sint n0 < 1 \<or> sint n1 < 1
         then Inl (runtime_error ''Board size values must be greater than one.'')
         else if sint (bytesList_rows dict) < sint (n0 * n1)
         then Inl (runtime_error ''Board size is too large for selected dictionary.'')
         else rest dict (Some (n0, n1)))"
  using assms
  by (simp add: applyConfiguration_def board_dimensions_def split: option.split)

text \<open>
  C10: with \<open>dict\<close> the dictionary that the configured key (or the default
  \<^verbatim>\<open>"4X4_50"\<close>) selects, \<^verbatim>\<open>applyConfiguration\<close> on a configured board size [n0, n1]
  raises "Board size values must be greater than one." exactly when a component is less
  than 1, else "Board size is too large for selected dictionary." exactly when the 32-bit
  product exceeds the marker count of \<open>dict\<close>, and else goes on to the remainder of the
  function. So it rejects a board size only when a component is less than 1 or the product
  of the two components exceeds the marker count of the selected dictionary; [1, 1] is
  accepted under every dictionary, although the message reads "greater than one". Without
  a configured board size nothing is tested. The marker counts are those the dictionary
  names give, and each name selects the dictionary of that name.
\<close>

theorem applyConfiguration_board_size:
  "(arucoDictionaryID (case dictionary opts of Some k \<Rightarrow> k | None \<Rightarrow> ''4X4_50'') = Inr dict \<longrightarrow>
      (board_size opts = None \<longrightarrow> applyConfiguration opts rest = rest dict None) \<and>
      (board_size opts = Some (1, 1) \<longrightarrow>
         applyConfiguration opts rest = rest dict (Some (1, 1))) \<and>
      (board_size opts = Some (n0, n1) \<longrightarrow>
         applyConfiguration opts rest =
           (if sint n0 < 1 \<or> sint n1 < 1
            then Inl (runtime_error ''Board size values must be greater than one.'')
            else if sint (bytesList_rows dict) < sint (n0 * n1)
            then Inl (runtime_error ''Board size is too large for selected dictionary.'')
            else rest dict (Some (n0, n1))) \<and>
         (\<not> (sint n0 < 1 \<or> sint n1 < 1 \<or> sint (bytesList_rows dict) < sint n0 * sint n1) \<longrightarrow>
            applyConfiguration opts rest = rest dict (Some (n0, n1))))) \<and>
   (isl (board_dimensions (Some (n0, n1)) dict) \<longrightarrow>
      sint n0 < 1 \<or> sint n1 < 1 \<or> sint (bytesList_rows dict) < sint n0 * sint n1) \<and>
   (board_dimensions (Some (n0, n1)) dict =
        Inl (runtime_error ''Board size values must be greater than one.'') \<longleftrightarrow>
      sint n0 < 1 \<or> sint n1 < 1) \<and>
   (bytesList_rows DICT_4X4_50 = 50 \<and> bytesList_rows DICT_4X4_100 = 100 \<and>
   bytesList_rows DICT_4X4_250 = 250 \<and> bytesList_rows DICT_4X4_1000 = 1000 \<and>
   bytesList_rows DICT_5X5_50 = 50 \<and> bytesList_rows DICT_5X5_100 = 100 \<and>
   bytesList_rows DICT_5X5_250 = 250 \<and> bytesList_rows DICT_5X5_1000 = 1000 \<and>
   bytesList_rows DICT_6X6_50 = 50 \<and> bytesList_rows DICT_6X6_100 = 100 \<and>
   bytesList_rows DICT_6X6_250 = 250 \<and> bytesList_rows DICT_6X6_1000 = 1000 \<and>
   bytesList_rows DICT_7X7_50 = 50 \<and> bytesList_rows DICT_7X7_100 = 100 \<and>
   bytesList_rows DICT_7X7_250 = 250 \<and> bytesList_rows DICT_7X7_1000 = 1000) \<and>
   arucoDictionaryID ''4X4_50'' = Inr DICT_4X4_50 \<and>
   arucoDictionaryID ''4X4_100'' = Inr DICT_4X4_100 \<and>
   arucoDictionaryID ''4X4_250'' = Inr DICT_4X4_250 \<and>
   arucoDictionaryID ''4X4_1000'' = Inr DICT_4X4_1000 \<and>
   arucoDictionaryID ''5X5_50'' = Inr DICT_5X5_50 \<and>
   arucoDictionaryID ''5X5_100'' = Inr DICT_5X5_100 \<and>
   arucoDictionaryID ''5X5_250'' = Inr DICT_5X5_250 \<and>
   arucoDictionaryID ''5X5_1000'' = Inr DICT_5X5_1000 \<and>
   arucoDictionaryID ''6X6_50'' = Inr DICT_6X6_50 \<and>
   arucoDictionaryID ''6X6_100'' = Inr DICT_6X6_100 \<and>
   arucoDictionaryID ''6X6_250'' = Inr DICT_6X6_250 \<and>
   arucoDictionaryID ''6X6_1000'' = Inr DICT_6X6_1000 \<and>
   arucoDictionaryID ''7X7_50'' = Inr DICT_7X7_50 \<and>
   arucoDictionaryID ''7X7_100'' = Inr DICT_7X7_100 \<and>
   arucoDictionaryID ''7X7_250'' = Inr DICT_7X7_250 \<and>
   arucoDictionaryID ''7X7_1000'' = Inr DICT_7X7_1000"
proof -
  have general: "applyConfiguration opts rest =
           (if sint n0 < 1 \<or> sint n1 < 1
            then Inl (runtime_error ''Board size values must be greater than one.'')
            else if sint (bytesList_rows dict) < sint (n0 * n1)
            then Inl (runtime_error ''Board size is too large for selected dictionary.'')
            else rest dict (Some (n0, n1)))"
    if "arucoDictionaryID (case dictionary opts of Some k \<Rightarrow> k | None \<Rightarrow> ''4X4_50'') = Inr dict"
      and "board_size opts = Some (n0, n1)"
    using that by (simp add: applyConfiguration_board)
  have none: "applyConfiguration opts rest = rest dict None"
    if "arucoDictionaryID (case dictionary opts of Some k \<Rightarrow> k | None \<Rightarrow> ''4X4_50'') = Inr dict"
      and "board_size opts = None"
    using that by (simp add: applyConfiguration_board)
  have accepts: "applyConfiguration opts rest = rest dict (Some (n0, n1))"
    if "arucoDictionaryID (case dictionary opts of Some k \<Rightarrow> k | None \<Rightarrow> ''4X4_50'') = Inr dict"
      and "board_size opts = Some (n0, n1)"
      and "\<not> (sint n0 < 1 \<or> sint n1 < 1 \<or> sint (bytesList_rows dict) < sint n0 * sint n1)"
    using that board_dimensions_accepts [OF that(3)]
    by (simp add: applyConfiguration_def)
  have one: "applyConfiguration opts rest = rest dict (Some (1, 1))"
    if "arucoDictionaryID (case dictionary opts of Some k \<Rightarrow> k | None \<Rightarrow> ''4X4_50'') = Inr dict"
      and "board_size opts = Some (1, 1)"
    using that by (simp add: applyConfiguration_def board_dimensions_one_one)
  have main: "arucoDictionaryID (case dictionary opts of Some k \<Rightarrow> k | None \<Rightarrow> ''4X4_50'') = Inr dict \<longrightarrow>
      (board_size opts = None \<longrightarrow> applyConfiguration opts rest = rest dict None) \<and>
      (board_size opts = Some (1, 1) \<longrightarrow>
         applyConfiguration opts rest = rest dict (Some (1, 1))) \<and>
      (board_size opts = Some (n0, n1) \<longrightarrow>
         applyConfiguration opts rest =
           (if sint n0 < 1 \<or> sint n1 < 1
            then Inl (runtime_error ''Board size values must be greater than one.'')
            else if sint (bytesList_rows dict) < sint (n0 * n1)
            then Inl (runtime_error ''Board size is too large for selected dictionary.'')
            else rest dict (Some (n0, n1))) \<and>
         (\<not> (sint n0 < 1 \<or> sint n1 < 1 \<or> sint (bytesList_rows dict) < sint n0 * sint n1) \<longrightarrow>
            applyConfiguration opts rest = rest dict (Some (n0, n1))))"
  proof (intro impI conjI)
    assume d: "arucoDictionaryID (case dictionary opts of Some k \<Rightarrow> k | None \<Rightarrow> ''4X4_50'') = Inr dict"
    {
      assume "board_size opts = None"
      then show "applyConfiguration opts rest = rest dict None"
        by (rule none [OF d])
    }
    {
      assume "board_size opts = Some (1, 1)"
      then show "applyConfiguration opts rest = rest dict (Some (1, 1))"
        by (rule one [OF d])
    }
    {
      assume b: "board_size opts = Some (n0, n1)"
      show "applyConfiguration opts rest =
           (if sint n0 < 1 \<or> sint n1 < 1
            then Inl (runtime_error ''Board size values must be greater than one.'')
            else if sint (bytesList_rows dict) < sint (n0 * n1)
            then Inl (runtime_error ''Board size is too large for selected dictionary.'')
            else rest dict (Some (n0, n1)))"
        by (rule general [OF d b])
      assume "\<not> (sint n0 < 1 \<or> sint n1 < 1 \<or> sint (bytesList_rows dict) < sint n0 * sint n1)"
      then show "applyConfiguration opts rest = rest dict (Some (n0, n1))"
        by (rule accepts [OF d b])
    }
  qed
  have only: "isl (board_dimensions (Some (n0, n1)) dict) \<longrightarrow>
      sint n0 < 1 \<or> sint n1 < 1 \<or> sint (bytesList_rows dict) < sint n0 * sint n1"
    using board_dimensions_rejects [of n0 n1 dict] by (rule conjunct1)
  have first: "board_dimensions (Some (n0, n1)) dict =
        Inl (runtime_error ''Board size values must be greater than one.'') \<longleftrightarrow>
      sint n0 < 1 \<or> sint n1 < 1"
    by (simp add: board_dimensions_def)
  have counts: "bytesList_rows DICT_4X4_50 = 50 \<and> bytesList_rows DICT_4X4_100 = 100 \<and>
   bytesList_rows DICT_4X4_250 = 250 \<and> bytesList_rows DICT_4X4_1000 = 1000 \<and>
   bytesList_rows DICT_5X5_50 = 50 \<and> bytesList_rows DICT_5X5_100 = 100 \<and>
   bytesList_rows DICT_5X5_250 = 250 \<and> bytesList_rows DICT_5X5_1000 = 1000 \<and>
   bytesList_rows DICT_6X6_50 = 50 \<and> bytesList_rows DICT_6X6_100 = 100 \<and>
   bytesList_rows DICT_6X6_250 = 250 \<and> bytesList_rows DICT_6X6_1000 = 1000 \<and>
   bytesList_rows DICT_7X7_50 = 50 \<and> bytesList_rows DICT_7X7_100 = 100 \<and>
   bytesList_rows DICT_7X7_250 = 250 \<and> bytesList_rows DICT_7X7_1000 = 1000"
    by simp
  have lookups: "arucoDictionaryID ''4X4_50'' = Inr DICT_4X4_50 \<and>
   arucoDictionaryID ''4X4_100'' = Inr DICT_4X4_100 \<and>
   arucoDictionaryID ''4X4_250'' = Inr DICT_4X4_250 \<and>
   arucoDictionaryID ''4X4_1000'' = Inr DICT_4X4_1000 \<and>
   arucoDictionaryID ''5X5_50'' = Inr DICT_5X5_50 \<and>
   arucoDictionaryID ''5X5_100'' = Inr DICT_5X5_100 \<and>
   arucoDictionaryID ''5X5_250'' = Inr DICT_5X5_250 \<and>
   arucoDictionaryID ''5X5_1000'' = Inr DICT_5X5_1000 \<and>
   arucoDictionaryID ''6X6_50'' = Inr DICT_6X6_50 \<and>
   arucoDictionaryID ''6X6_100'' = Inr DICT_6X6_100 \<and>
   arucoDictionaryID ''6X6_250'' = Inr DICT_6X6_250 \<and>
   arucoDictionaryID ''6X6_1000'' = Inr DICT_6X6_1000 \<and>
   arucoDictionaryID ''7X7_50'' = Inr DICT_7X7_50 \<and>
   arucoDictionaryID ''7X7_100'' = Inr DICT_7X7_100 \<and>
   arucoDictionaryID ''7X7_250'' = Inr DICT_7X7_250 \<and>
   arucoDictionaryID ''7X7_1000'' = Inr DICT_7X7_1000"
    by (simp add: arucoDictionaryID_def dict_map_def)
  show ?thesis
    by (rule conjI [OF main conjI [OF only conjI [OF first conjI [OF counts lookups]]]])
qed

theorem applyConfiguration_board_size_witness:
  "arucoDictionaryID ''7X7_1000'' = Inr DICT_7X7_1000 \<and>
   applyConfiguration \<lparr>dictionary = Some ''7X7_1000'', board_size = Some (10, 10)\<rparr>
       (\<lambda>dict n. Inr (dict, n))
     = Inr (DICT_7X7_1000, Some (10, 10)) \<and>
   applyConfiguration \<lparr>dictionary = None, board_size = Some (8, 7)\<rparr>
       (\<lambda>dict n. Inr (dict, n))
     = Inl (runtime_error ''Board size is too large for selected dictionary.'') \<and>
   applyConfiguration \<lparr>dictionary = Some ''4X4_50'', board_size = Some (0, 5)\<rparr>
       (\<lambda>dict n. Inr (dict, n))
     = Inl (runtime_error ''Board size values must be greater than one.'') \<and>
   applyConfiguration \<lparr>dictionary = Some ''4X4_50'', board_size = Some (1, 1)\<rparr>
       (\<lambda>dict n. Inr (dict, n))
     = Inr (DICT_4X4_50, Some (1, 1)) \<and>
   applyConfiguration \<lparr>dictionary = Some ''4X4_50'', board_size = None\<rparr>
       (\<lambda>dict n. Inr (dict, n))
     = Inr (DICT_4X4_50, None) \<and>
   isl (board_dimensions (Some (8, 7)) DICT_4X4_50) \<and>
   sint (bytesList_rows DICT_4X4_50) < sint (8 :: cint) * sint (7 :: cint)"
proof -
  have k1: "arucoDictionaryID ''7X7_1000'' = Inr DICT_7X7_1000"
    and k2: "arucoDictionaryID ''4X4_50'' = Inr DICT_4X4_50"
    by (simp_all add: arucoDictionaryID_def dict_map_def)
  have large: "isl (board_dimensions (Some (8, 7)) DICT_4X4_50)"
    by (simp add: board_dimensions_def)
  show ?thesis
    using k1 k2 large
      applyConfiguration_board_size
        [of "\<lparr>dictionary = Some ''7X7_1000'', board_size = Some (10, 10)\<rparr>"
            DICT_7X7_1000 "\<lambda>dict n. Inr (dict, n)" 10 10]
      applyConfiguration_board_size
        [of "\<lparr>dictionary = None, board_size = Some (8, 7)\<rparr>"
            DICT_4X4_50 "\<lambda>dict n. Inr (dict, n)" 8 7]
      applyConfiguration_board_size
        [of "\<lparr>dictionary = Some ''4X4_50'', board_size = Some (0, 5)\<rparr>"
            DICT_4X4_50 "\<lambda>dict n. Inr (dict, n)" 0 5]
      applyConfiguration_board_size
        [of "\<lparr>dictionary = Some ''4X4_50'', board_size = Some (1, 1)\<rparr>"
            DICT_4X4_50 "\<lambda>dict n. Inr (dict, n)" 1 1]
      applyConfiguration_board_size
        [of "\<lparr>dictionary = Some ''4X4_50'', board_size = None\<rparr>"
            DICT_4X4_50 "\<lambda>dict n. Inr (dict, n)" 1 1]
    by simp
qed

section \<open>Properties of the drawing code\<close>

text \<open>
  C9: when \<open>position_valid\<close> of the position sample is false, \<^verbatim>\<open>drawSymbols\<close> leaves the
  decorator, and so its image, as it was, whatever \<^verbatim>\<open>cv::circle\<close> and \<^verbatim>\<open>cv::line\<close> do: none
  of the three drawing functions changes anything then, and \<^verbatim>\<open>decorateImage\<close> ends with
  the frame it received. The head-direction line also needs \<open>head_direction_valid\<close> and
  the velocity line \<open>velocity_valid\<close>; with the flags set, each function's image is the
  result of its one drawing call.
\<close>

theorem drawSymbols_position_invalid:
  "(\<not> position_valid (position_sample d) \<longrightarrow>
      drawPosition cv d = d \<and> drawHeadDirection cv d = d \<and> drawVelocity cv d = d \<and>
      drawSymbols cv d = d) \<and>
   (\<not> head_direction_valid (position_sample d) \<longrightarrow> drawHeadDirection cv d = d) \<and>
   (\<not> velocity_valid (position_sample d) \<longrightarrow> drawVelocity cv d = d) \<and>
   (\<not> position_valid pos \<longrightarrow> image (decorateImage cv pos frame d) = frame) \<and>
   (position_valid (position_sample d) \<longrightarrow>
      image (drawPosition cv d) =
        circle cv (image d) (position (position_sample d)) (position_circle_radius d)
          (Scalar 1 1 1) 2) \<and>
   (position_valid (position_sample d) \<and> head_direction_valid (position_sample d) \<longrightarrow>
      image (drawHeadDirection cv d) =
        line cv (image d)
          (point_sub cv (position (position_sample d))
             (point_scale cv (head_dir_line_length d) (head_direction (position_sample d))))
          (point_add cv (position (position_sample d))
             (point_scale cv (head_dir_line_length d) (head_direction (position_sample d))))
          (Scalar 255 255 255) 2 8) \<and>
   (velocity_valid (position_sample d) \<and> position_valid (position_sample d) \<longrightarrow>
      image (drawVelocity cv d) =
        line cv (image d) (position (position_sample d))
          (point_add cv (position (position_sample d))
             (point_scale cv (velocity_scale_factor d) (velocity (position_sample d))))
          (Scalar 0 255 0) 2 8)"
  by (simp add: decorateImage_def drawSymbols_def drawPosition_def drawHeadDirection_def
      drawVelocity_def)

theorem drawSymbols_position_invalid_witness:
  "image (drawSymbols
      \<lparr>circle = (\<lambda>img c r s t. Suc img), line = (\<lambda>img a b s t l. Suc img),
       point_sub = (\<lambda>a b. a - b), point_add = (\<lambda>a b. a + b), point_scale = (\<lambda>k a. k * a)\<rparr>
      \<lparr>position_sample =
         \<lparr>position_valid = False, position = 4 :: int, head_direction_valid = True,
          head_direction = 1, velocity_valid = True, velocity = 2\<rparr>,
       image = 0 :: nat, position_circle_radius = 5, head_dir_line_length = 10 :: int,
       velocity_scale_factor = 3\<rparr>) = 0 \<and>
   image (drawPosition
      \<lparr>circle = (\<lambda>img c r s t. Suc img), line = (\<lambda>img a b s t l. Suc img),
       point_sub = (\<lambda>a b. a - b), point_add = (\<lambda>a b. a + b), point_scale = (\<lambda>k a. k * a)\<rparr>
      \<lparr>position_sample =
         \<lparr>position_valid = True, position = 4 :: int, head_direction_valid = False,
          head_direction = 1, velocity_valid = True, velocity = 2\<rparr>,
       image = 0 :: nat, position_circle_radius = 5, head_dir_line_length = 10 :: int,
       velocity_scale_factor = 3\<rparr>) = 1 \<and>
   image (drawHeadDirection
      \<lparr>circle = (\<lambda>img c r s t. Suc img), line = (\<lambda>img a b s t l. Suc img),
       point_sub = (\<lambda>a b. a - b), point_add = (\<lambda>a b. a + b), point_scale = (\<lambda>k a. k * a)\<rparr>
      \<lparr>position_sample =
         \<lparr>position_valid = True, position = 4 :: int, head_direction_valid = False,
          head_direction = 1, velocity_valid = True, velocity = 2\<rparr>,
       image = 0 :: nat, position_circle_radius = 5, head_dir_line_length = 10 :: int,
       velocity_scale_factor = 3\<rparr>) = 0 \<and>
   image (drawVelocity
      \<lparr>circle = (\<lambda>img c r s t. Suc img), line = (\<lambda>img a b s t l. Suc img),
       point_sub = (\<lambda>a b. a - b), point_add = (\<lambda>a b. a + b), point_scale = (\<lambda>k a. k * a)\<rparr>
      \<lparr>position_sample =
         \<lparr>position_valid = True, position = 4 :: int, head_direction_valid = False,
          head_direction = 1, velocity_valid = True, velocity = 2\<rparr>,
       image = 0 :: nat, position_circle_radius = 5, head_dir_line_length = 10 :: int,
       velocity_scale_factor = 3\<rparr>) = 1"
  using
    drawSymbols_position_invalid
      [of "\<lparr>position_sample =
           \<lparr>position_valid = False, position = 4 :: int, head_direction_valid = True,
            head_direction = 1, velocity_valid = True, velocity = 2\<rparr>,
         image = 0 :: nat, position_circle_radius = 5, head_dir_line_length = 10 :: int,
         velocity_scale_factor = 3\<rparr>"
        "\<lparr>circle = (\<lambda>img c r s t. Suc img), line = (\<lambda>img a b s t l. Suc img),
         point_sub = (\<lambda>a b. a - b), point_add = (\<lambda>a b. a + b), point_scale = (\<lambda>k a. k * a)\<rparr>"]
    drawSymbols_position_invalid
      [of "\<lparr>position_sample =
           \<lparr>position_valid = True, position = 4 :: int, head_direction_valid = False,
            head_direction = 1, velocity_valid = True, velocity = 2\<rparr>,
         image = 0 :: nat, position_circle_radius = 5, head_dir_line_length = 10 :: int,
         velocity_scale_factor = 3\<rparr>"
        "\<lparr>circle = (\<lambda>img c r s t. Suc img), line = (\<lambda>img a b s t l. Suc img),
         point_sub = (\<lambda>a b. a - b), point_add = (\<lambda>a b. a + b), point_scale = (\<lambda>k a. k * a)\<rparr>"]
  by simp

section \<open>Properties of the slot table\<close>

lemma first_free_None: "first_free ss = None \<longleftrightarrow> length (filter in_use ss) = length ss"
proof (induction ss)
  case Nil
  then show ?case by simp
next
  case (Cons s ss)
  have "length (filter in_use ss) \<noteq> Suc (length ss)"
    using length_filter_le [of in_use ss] by arith
  with Cons show ?case
    by auto
qed

lemma first_free_Some: "first_free ss = Some i \<Longrightarrow> i < length ss \<and> \<not> in_use (ss ! i)"
  by (induction ss arbitrary: i) (auto split: if_splits)

lemma filter_in_use_acquire:
  "i < length ss \<Longrightarrow> \<not> in_use (ss ! i) \<Longrightarrow>
   length (filter in_use (ss[i := (ss ! i)\<lparr>in_use := True\<rparr>])) = Suc (length (filter in_use ss))"
proof (induction ss arbitrary: i)
  case Nil
  then show ?case by simp
next
  case (Cons s ss)
  then show ?case by (cases i) auto
qed

lemma filter_in_use_release:
  "i < length ss \<Longrightarrow> in_use (ss ! i) \<Longrightarrow>
   Suc (length (filter in_use (ss[i := (ss ! i)\<lparr>in_use := False\<rparr>]))) = length (filter in_use ss)"
proof (induction ss arbitrary: i)
  case Nil
  then show ?case by simp
next
  case (Cons s ss)
  then show ?case by (cases i) auto
qed

lemma fresh_node_inv: "node_inv fresh_node"
  by (simp add: node_inv_def fresh_node_def)

lemma acquireSlot_full:
  assumes "node_inv n"
  shows "fst (acquireSlot n) = Inl CapacityExceeded \<longleftrightarrow> active_slot_count n = int NUM_SLOTS"
proof (cases "first_free (slots n)")
  case None
  then have "length (filter in_use (slots n)) = length (slots n)"
    by (simp only: first_free_None)
  with assms None show ?thesis
    by (simp add: acquireSlot_def node_inv_def)
next
  case (Some i)
  then have "first_free (slots n) \<noteq> None"
    by simp
  then have "length (filter in_use (slots n)) \<noteq> length (slots n)"
    by (simp add: first_free_None)
  with assms Some show ?thesis
    by (simp add: acquireSlot_def node_inv_def)
qed

lemma acquireSlot_inv:
  assumes "node_inv n"
  shows "node_inv (snd (acquireSlot n))"
proof (cases "first_free (slots n)")
  case None
  with assms show ?thesis
    by (simp add: acquireSlot_def)
next
  case (Some i)
  from first_free_Some [OF Some] have "i < length (slots n)" and "\<not> in_use (slots n ! i)"
    by auto
  then have "length (filter in_use ((slots n)[i := (slots n ! i)\<lparr>in_use := True\<rparr>])) =
      Suc (length (filter in_use (slots n)))"
    by (rule filter_in_use_acquire)
  with assms Some show ?thesis
    by (simp add: acquireSlot_def node_inv_def)
qed

lemma releaseSlot_noop:
  "\<not> (0 \<le> i \<and> i < int (length (slots n)) \<and> in_use (slots n ! nat i)) \<Longrightarrow> releaseSlot n i = n"
  by (auto simp add: releaseSlot_def)

lemma releaseSlot_inv:
  assumes "node_inv n"
  shows "node_inv (releaseSlot n i)"
proof (cases "0 \<le> i \<and> i < int (length (slots n)) \<and> in_use (slots n ! nat i)")
  case True
  then have lt: "nat i < length (slots n)" and used: "in_use (slots n ! nat i)"
    by auto
  have "int (length (filter in_use ((slots n)[nat i := (slots n ! nat i)\<lparr>in_use := False\<rparr>]))) =
        int (length (filter in_use (slots n))) - 1"
    using filter_in_use_release [OF lt used] by linarith
  with assms True show ?thesis
    by (simp add: releaseSlot_def node_inv_def)
next
  case False
  with assms show ?thesis
    by (simp add: releaseSlot_noop)
qed

lemma releaseSlot_idem: "releaseSlot (releaseSlot n i) i = releaseSlot n i"
proof (cases "0 \<le> i \<and> i < int (length (slots n)) \<and> in_use (slots n ! nat i)")
  case True
  then have lt: "nat i < length (slots n)"
    by auto
  have "\<not> in_use (slots (releaseSlot n i) ! nat i)"
    using True lt by (simp add: releaseSlot_def)
  then show ?thesis
    by (simp add: releaseSlot_noop)
next
  case False
  then show ?thesis
    by (simp add: releaseSlot_noop)
qed

lemma releaseSlot_frame: "int j \<noteq> i \<Longrightarrow> slots (releaseSlot n i) ! j = slots n ! j"
  by (auto simp add: releaseSlot_def)

text \<open>
  C3: starting from a fresh Node, \<open>N\<close> sequential \<^verbatim>\<open>acquireSlot\<close> calls succeed for every
  \<open>N\<close> up to \<open>NUM_SLOTS\<close> = 10 (handing out the indices 0 to \<open>N - 1\<close> and leaving \<open>N\<close>
  slots in use); the call after the tenth fails with \<open>CapacityExceeded\<close> and leaves the
  table with exactly \<open>NUM_SLOTS\<close> slots in use. In any node that satisfies the invariant,
  \<^verbatim>\<open>acquireSlot\<close> fails exactly when the count has reached \<open>NUM_SLOTS\<close>.
\<close>

theorem acquireSlot_capacity:
  "(N \<le> NUM_SLOTS \<longrightarrow>
      fst (acquireSlots N fresh_node) = Inr (map int [0..<N]) \<and>
      source_ref_count (snd (acquireSlots N fresh_node)) = int N \<and>
      length (filter in_use (slots (snd (acquireSlots N fresh_node)))) = N) \<and>
   acquireSlots (NUM_SLOTS + 1) fresh_node =
     (Inl CapacityExceeded, snd (acquireSlots NUM_SLOTS fresh_node)) \<and>
   acquireSlot (snd (acquireSlots NUM_SLOTS fresh_node)) =
     (Inl CapacityExceeded, snd (acquireSlots NUM_SLOTS fresh_node)) \<and>
   length (filter in_use (slots (snd (acquireSlots (NUM_SLOTS + 1) fresh_node)))) = NUM_SLOTS \<and>
   source_ref_count (snd (acquireSlots (NUM_SLOTS + 1) fresh_node)) = int NUM_SLOTS \<and>
   (node_inv n \<longrightarrow>
      (fst (acquireSlot n) = Inl CapacityExceeded \<longleftrightarrow> source_ref_count n = int NUM_SLOTS))"
proof -
  have upto: "fst (acquireSlots N fresh_node) = Inr (map int [0..<N]) \<and>
      source_ref_count (snd (acquireSlots N fresh_node)) = int N \<and>
      length (filter in_use (slots (snd (acquireSlots N fresh_node)))) = N"
    if "N \<le> NUM_SLOTS"
  proof -
    have "N = 0 \<or> N = 1 \<or> N = 2 \<or> N = 3 \<or> N = 4 \<or> N = 5 \<or> N = 6 \<or> N = 7 \<or> N = 8 \<or>
        N = 9 \<or> N = 10"
      using that unfolding NUM_SLOTS_def by arith
    then show ?thesis
      by (elim disjE; hypsubst; code_simp)
  qed
  have last: "acquireSlots (NUM_SLOTS + 1) fresh_node =
      (Inl CapacityExceeded, snd (acquireSlots NUM_SLOTS fresh_node))"
    by code_simp
  have again: "acquireSlot (snd (acquireSlots NUM_SLOTS fresh_node)) =
      (Inl CapacityExceeded, snd (acquireSlots NUM_SLOTS fresh_node))"
    by code_simp
  have used: "length (filter in_use (slots (snd (acquireSlots (NUM_SLOTS + 1) fresh_node)))) =
      NUM_SLOTS"
    by code_simp
  have count: "source_ref_count (snd (acquireSlots (NUM_SLOTS + 1) fresh_node)) = int NUM_SLOTS"
    by code_simp
  have full: "fst (acquireSlot n) = Inl CapacityExceeded \<longleftrightarrow> source_ref_count n = int NUM_SLOTS"
    if "node_inv n"
    using acquireSlot_full [OF that] by (simp add: source_ref_count_def)
  from upto last again used count full show ?thesis
    by blast
qed

theorem acquireSlot_capacity_witness:
  "fst (acquireSlots 3 fresh_node) = Inr (map int [0..<3]) \<and>
   source_ref_count (snd (acquireSlots 3 fresh_node)) = 3 \<and>
   node_inv fresh_node \<and>
   fst (acquireSlot fresh_node) \<noteq> Inl CapacityExceeded"
proof -
  have le: "3 \<le> NUM_SLOTS"
    by (simp add: NUM_SLOTS_def)
  have count: "source_ref_count fresh_node \<noteq> int NUM_SLOTS"
    by (simp add: source_ref_count_def fresh_node_def NUM_SLOTS_def)
  show ?thesis
    using le count fresh_node_inv acquireSlot_capacity [of 3 fresh_node]
    by simp
qed

text \<open>
  C5: in a node that satisfies the invariant, \<^verbatim>\<open>releaseSlot\<close> on a slot that is not in use
  (never acquired, already released, or outside the table) changes nothing, so the count
  stays as it was; the count never drops below zero; no entry other than the released one
  is altered; releasing twice is releasing once; and on a fresh Node \<^verbatim>\<open>releaseSlot(0)\<close>
  leaves the count at 0.
\<close>

theorem releaseSlot_unused:
  "node_inv n \<Longrightarrow>
     (\<not> (0 \<le> i \<and> i < int NUM_SLOTS \<and> in_use (slots n ! nat i)) \<longrightarrow> releaseSlot n i = n) \<and>
     0 \<le> source_ref_count (releaseSlot n i) \<and>
     (\<forall>j. int j \<noteq> i \<longrightarrow> slots (releaseSlot n i) ! j = slots n ! j) \<and>
     releaseSlot (releaseSlot n i) i = releaseSlot n i \<and>
     node_inv (releaseSlot n i) \<and>
     releaseSlot fresh_node 0 = fresh_node \<and>
     source_ref_count (releaseSlot fresh_node 0) = 0"
proof -
  assume inv: "node_inv n"
  then have len: "length (slots n) = NUM_SLOTS"
    by (simp add: node_inv_def)
  have noop: "releaseSlot n i = n"
    if "\<not> (0 \<le> i \<and> i < int NUM_SLOTS \<and> in_use (slots n ! nat i))"
    using that len by (simp add: releaseSlot_noop)
  have inv': "node_inv (releaseSlot n i)"
    using inv by (rule releaseSlot_inv)
  then have count: "0 \<le> source_ref_count (releaseSlot n i)"
    by (simp add: node_inv_def source_ref_count_def)
  have fresh: "releaseSlot fresh_node 0 = fresh_node"
    by (simp add: releaseSlot_def fresh_node_def NUM_SLOTS_def)
  then have fresh_count: "source_ref_count (releaseSlot fresh_node 0) = 0"
    by (simp add: source_ref_count_def fresh_node_def)
  from noop count inv' fresh fresh_count releaseSlot_idem [of n i] show ?thesis
    by (simp add: releaseSlot_frame)
qed

theorem releaseSlot_unused_witness:
  "node_inv (snd (acquireSlots 2 fresh_node)) \<and>
   releaseSlot (snd (acquireSlots 2 fresh_node)) 5 = snd (acquireSlots 2 fresh_node) \<and>
   source_ref_count (releaseSlot (snd (acquireSlots 2 fresh_node)) 5) = 2 \<and>
   source_ref_count (releaseSlot (releaseSlot (snd (acquireSlots 2 fresh_node)) 1) 1) = 1 \<and>
   slots (releaseSlot (snd (acquireSlots 2 fresh_node)) 1) ! 0 =
     slots (snd (acquireSlots 2 fresh_node)) ! 0"
proof -
  have inv: "node_inv (snd (acquireSlots 2 fresh_node))"
    by code_simp
  have unused: "\<not> (0 \<le> (5 :: int) \<and> 5 < int NUM_SLOTS \<and>
      in_use (slots (snd (acquireSlots 2 fresh_node)) ! nat 5))"
    by code_simp
  have two: "source_ref_count (snd (acquireSlots 2 fresh_node)) = 2"
    by code_simp
  have one: "source_ref_count (releaseSlot (snd (acquireSlots 2 fresh_node)) 1) = 1"
    by code_simp
  show ?thesis
    using inv unused two one
      releaseSlot_unused [OF inv, of 5] releaseSlot_unused [OF inv, of 1]
    by simp
qed

end
